theory Spec2Isabelle
  imports Main "HOL-Library.Multiset" "HOL-Library.Sublist"
begin

section \<open>Data model (the types module)\<close>

text \<open>
  \<^verbatim>\<open>enum Priority { LOW = 'low', MEDIUM = 'medium', HIGH = 'high', URGENT = 'urgent' }\<close>
\<close>

datatype Priority = LOW | MEDIUM | HIGH | URGENT

text \<open>
  A \<^verbatim>\<open>Date\<close> is represented by the integer its \<^verbatim>\<open>getTime()\<close> returns (milliseconds
  since the epoch); only valid dates are modelled. An optional field \<^verbatim>\<open>f?: T\<close> is a
  \<open>T option\<close>, \<open>None\<close> standing for \<^verbatim>\<open>undefined\<close>.
\<close>

type_synonym Date = int

text \<open>
  \<^verbatim>\<open>interface CreateTodoForm\<close>, and \<^verbatim>\<open>interface Todo\<close> as its extension by the four
  fields a draft does not have. The field \<^verbatim>\<open>id\<close> is named \<open>todo_id\<close> (\<open>id\<close> is the
  identity function of HOL).
\<close>

record CreateTodoForm =
  title :: string
  description :: "string option"
  priority :: Priority
  category :: string
  dueDate :: "Date option"
  tags :: "string list"

record Todo = CreateTodoForm +
  todo_id :: string
  completed :: bool
  createdAt :: Date
  updatedAt :: Date

text \<open>
  \<^verbatim>\<open>interface UpdateTodoForm extends Partial<CreateTodoForm> { completed?: boolean }\<close>.
  A key that is absent from the object is \<open>None\<close>. The two fields that are optional in
  a todo can also be present with the value \<^verbatim>\<open>undefined\<close> (the edit form passes them
  so), which the spread copies: that is \<open>Some None\<close>.
\<close>

record UpdateTodoForm =
  upd_title :: "string option"
  upd_description :: "string option option"
  upd_priority :: "Priority option"
  upd_category :: "string option"
  upd_dueDate :: "Date option option"
  upd_tags :: "string list option"
  upd_completed :: "bool option"

text \<open>\<^verbatim>\<open>interface Category\<close>.\<close>

record Category =
  cat_id :: string
  cat_name :: string
  cat_color :: string
  cat_icon :: "string option"
  cat_createdAt :: Date

text \<open>\<^verbatim>\<open>interface TodoFilter\<close>; \<^verbatim>\<open>status?: 'all' | 'active' | 'completed'\<close>.\<close>

datatype FilterStatus = StatusAll | StatusActive | StatusCompleted

record TodoFilter =
  status :: "FilterStatus option"
  filter_priority :: "Priority option"
  filter_category :: "string option"
  search :: "string option"
  tag :: "string option"

text \<open>
  \<^verbatim>\<open>interface NotificationState\<close>. The argument of \<^verbatim>\<open>addNotification\<close> has the type
  \<^verbatim>\<open>Omit<NotificationState, 'id'>\<close>, the record without the identifier. A duration is a
  number of milliseconds.
\<close>

datatype NotificationType = Success | Error | Warning | Info

record NotificationInput =
  notif_type :: NotificationType
  notif_title :: string
  message :: "string option"
  duration :: "int option"
  persistent :: "bool option"

record NotificationState = NotificationInput +
  notif_id :: string

text \<open>
  A count held in an object that is read by key. Reading a missing key gives
  \<^verbatim>\<open>undefined\<close>, and incrementing that stores \<^verbatim>\<open>NaN\<close>.
\<close>

datatype number = Num nat | NaN

text \<open>
  \<^verbatim>\<open>interface TodoStats\<close>. The field \<^verbatim>\<open>completed\<close> is named \<open>completed_stat\<close> (the
  todo has a field of that name).
\<close>

record TodoStats =
  total :: nat
  completed_stat :: nat
  pending :: nat
  overdue :: nat
  byPriority :: "Priority \<rightharpoonup> number"
  byCategory :: "string \<rightharpoonup> number"

section \<open>Sorting, filtering and statistics (the utils module)\<close>

text \<open>
  \<^verbatim>\<open>generateId\<close>: \<^verbatim>\<open>Math.random().toString(36).substring(2) + Date.now().toString(36)\<close>.
  The two arguments are the strings the two \<^verbatim>\<open>toString(36)\<close> calls return: the base-36
  digits of a random number below one, after \<^verbatim>\<open>0.\<close>, and those of the clock's reading.
  The store is not consulted. The actions of the store take the result as an argument.
\<close>

definition generateId :: "string \<Rightarrow> string \<Rightarrow> string" where
  "generateId random36 now36 = drop 2 random36 @ now36"

text \<open>
  \<^verbatim>\<open>getPriorityValue\<close>: the table \<^verbatim>\<open>{ low: 1, medium: 2, high: 3, urgent: 4 }\<close>.
\<close>

fun getPriorityValue :: "Priority \<Rightarrow> int" where
  "getPriorityValue LOW = 1"
| "getPriorityValue MEDIUM = 2"
| "getPriorityValue HIGH = 3"
| "getPriorityValue URGENT = 4"

datatype SortBy = ByCreatedAt | ByDueDate | ByPriority | ByTitle

datatype SortOrder = Asc | Desc

text \<open>
  The comparator passed to \<^verbatim>\<open>sort\<close> inside \<^verbatim>\<open>sortTodos\<close>. \<^verbatim>\<open>localeCompare\<close> belongs to
  the runtime and is a parameter. A \<^verbatim>\<open>Date\<close> object is always truthy, so \<^verbatim>\<open>!a.dueDate\<close>
  holds exactly when the field is \<^verbatim>\<open>undefined\<close>.
\<close>

definition compareTodos ::
  "(string \<Rightarrow> string \<Rightarrow> int) \<Rightarrow> SortBy \<Rightarrow> SortOrder \<Rightarrow> Todo \<Rightarrow> Todo \<Rightarrow> int" where
  "compareTodos localeCompare sortBy sortOrder a b =
     (let comparison =
        (case sortBy of
           ByCreatedAt \<Rightarrow> createdAt a - createdAt b
         | ByDueDate \<Rightarrow>
             (if dueDate a = None \<and> dueDate b = None then 0
              else if dueDate a = None then 1
              else if dueDate b = None then - 1
              else the (dueDate a) - the (dueDate b))
         | ByPriority \<Rightarrow> getPriorityValue (priority b) - getPriorityValue (priority a)
         | ByTitle \<Rightarrow> localeCompare (title a) (title b))
      in if sortOrder = Asc then comparison else - comparison)"

text \<open>
  \<^verbatim>\<open>Array.prototype.sort\<close> with a comparator is the runtime's. ECMAScript requires it to
  be stable and, for a consistent comparator, to return the elements in comparator order;
  it is modelled by a stable insertion sort: an element is placed before the first
  element of the sorted rest that it does not compare greater than.
\<close>

fun sort_insert :: "('a \<Rightarrow> 'a \<Rightarrow> int) \<Rightarrow> 'a \<Rightarrow> 'a list \<Rightarrow> 'a list" where
  "sort_insert cmp x [] = [x]"
| "sort_insert cmp x (y # ys) =
     (if cmp x y \<le> 0 then x # y # ys else y # sort_insert cmp x ys)"

fun Array_sort :: "('a \<Rightarrow> 'a \<Rightarrow> int) \<Rightarrow> 'a list \<Rightarrow> 'a list" where
  "Array_sort cmp [] = []"
| "Array_sort cmp (x # xs) = sort_insert cmp x (Array_sort cmp xs)"

text \<open>\<^verbatim>\<open>sortTodos\<close>: sorts a copy, the argument is not changed.\<close>

definition sortTodos ::
  "(string \<Rightarrow> string \<Rightarrow> int) \<Rightarrow> Todo list \<Rightarrow> SortBy \<Rightarrow> SortOrder \<Rightarrow> Todo list" where
  "sortTodos localeCompare todos sortBy sortOrder =
     Array_sort (compareTodos localeCompare sortBy sortOrder) todos"






text \<open>
  \<^verbatim>\<open>obj[key]++\<close> on an object of numbers: a missing key reads as \<^verbatim>\<open>undefined\<close>, whose
  increment is \<^verbatim>\<open>NaN\<close>.
\<close>

definition increment :: "('k \<rightharpoonup> number) \<Rightarrow> 'k \<Rightarrow> ('k \<rightharpoonup> number)" where
  "increment obj k =
     obj(k \<mapsto> (case obj k of Some (Num n) \<Rightarrow> Num (n + 1) | Some NaN \<Rightarrow> NaN | None \<Rightarrow> NaN))"

text \<open>
  \<^verbatim>\<open>if (stats.byCategory[category]) stats.byCategory[category]++ else
  stats.byCategory[category] = 1\<close>: a missing key, zero and \<^verbatim>\<open>NaN\<close> are falsy. Category
  keys that name a property every object inherits (such as \<^verbatim>\<open>constructor\<close>) are not
  modelled.
\<close>

definition countCategory :: "(string \<rightharpoonup> number) \<Rightarrow> string \<Rightarrow> (string \<rightharpoonup> number)" where
  "countCategory obj k =
     (case obj k of
        Some (Num n) \<Rightarrow> if n \<noteq> 0 then increment obj k else obj(k \<mapsto> Num 1)
      | Some NaN \<Rightarrow> obj(k \<mapsto> Num 1)
      | None \<Rightarrow> obj(k \<mapsto> Num 1))"

text \<open>
  \<^verbatim>\<open>isOverdue\<close>: \<^verbatim>\<open>isPast(date) && !isToday(date)\<close>. The two tests come from a date
  library and read the clock; they are parameters.
\<close>

definition isOverdue :: "(Date \<Rightarrow> bool) \<Rightarrow> (Date \<Rightarrow> bool) \<Rightarrow> Date \<Rightarrow> bool" where
  "isOverdue isPast isToday date = (isPast date \<and> \<not> isToday date)"

text \<open>The callback of \<^verbatim>\<open>forEach\<close> inside \<^verbatim>\<open>calculateTodoStats\<close>.\<close>

definition countTodo ::
  "(Date \<Rightarrow> bool) \<Rightarrow> (Date \<Rightarrow> bool) \<Rightarrow> TodoStats \<Rightarrow> Todo \<Rightarrow> TodoStats" where
  "countTodo isPast isToday stats todo =
     (let stats1 =
        (if completed todo then stats\<lparr>completed_stat := completed_stat stats + 1\<rparr>
         else
           (let stats0 = stats\<lparr>pending := pending stats + 1\<rparr>
            in if dueDate todo \<noteq> None \<and> isOverdue isPast isToday (the (dueDate todo))
               then stats0\<lparr>overdue := overdue stats0 + 1\<rparr>
               else stats0));
          stats2 = stats1\<lparr>byPriority := increment (byPriority stats1) (priority todo)\<rparr>
      in stats2\<lparr>byCategory := countCategory (byCategory stats2) (category todo)\<rparr>)"

text \<open>The object literal \<^verbatim>\<open>calculateTodoStats\<close> starts from.\<close>

definition initialStats :: "Todo list \<Rightarrow> TodoStats" where
  "initialStats todos =
     \<lparr>total = length todos, completed_stat = 0, pending = 0, overdue = 0,
      byPriority = [LOW \<mapsto> Num 0, MEDIUM \<mapsto> Num 0, HIGH \<mapsto> Num 0, URGENT \<mapsto> Num 0],
      byCategory = Map.empty\<rparr>"

definition calculateTodoStats ::
  "(Date \<Rightarrow> bool) \<Rightarrow> (Date \<Rightarrow> bool) \<Rightarrow> Todo list \<Rightarrow> TodoStats" where
  "calculateTodoStats isPast isToday todos =
     foldl (countTodo isPast isToday) (initialStats todos) todos"

section \<open>The store (the todoStore module)\<close>

text \<open>
  The state of the store. The last field is not a field of the source's store: it holds
  the callbacks registered with \<^verbatim>\<open>setTimeout\<close> that have not run yet, each as the
  identifier it will remove and its delay, so that the timer path is part of the model.
  Writing the state to local storage after each change is the persistence middleware's
  work and is not modelled.
\<close>

record TodoStore =
  todos :: "Todo list"
  categories :: "Category list"
  filters :: TodoFilter
  notifications :: "NotificationState list"
  isLoading :: bool
  error :: "string option"
  timers :: "(string \<times> int) list"

text \<open>
  \<^verbatim>\<open>defaultCategories\<close>, \<^verbatim>\<open>defaultFilters\<close> and the initial state. The creation dates are
  the time the module was loaded.
\<close>

definition defaultCategories :: "Date \<Rightarrow> Category list" where
  "defaultCategories loaded =
     [\<lparr>cat_id = ''personal'', cat_name = ''Personal'', cat_color = ''#3B82F6'',
       cat_icon = Some ''User'', cat_createdAt = loaded\<rparr>,
      \<lparr>cat_id = ''work'', cat_name = ''Work'', cat_color = ''#F59E0B'',
       cat_icon = Some ''Briefcase'', cat_createdAt = loaded\<rparr>,
      \<lparr>cat_id = ''shopping'', cat_name = ''Shopping'', cat_color = ''#10B981'',
       cat_icon = Some ''ShoppingCart'', cat_createdAt = loaded\<rparr>,
      \<lparr>cat_id = ''health'', cat_name = ''Health'', cat_color = ''#EF4444'',
       cat_icon = Some ''Heart'', cat_createdAt = loaded\<rparr>]"

definition defaultFilters :: TodoFilter where
  "defaultFilters =
     \<lparr>status = Some StatusAll, filter_priority = None, filter_category = None,
      search = None, tag = None\<rparr>"

definition initialStore :: "Date \<Rightarrow> TodoStore" where
  "initialStore loaded =
     \<lparr>todos = [], categories = defaultCategories loaded, filters = defaultFilters,
      notifications = [], isLoading = False, error = None, timers = []\<rparr>"

text \<open>
  \<^verbatim>\<open>Array.prototype.map\<close> calls its callback on the elements from left to right, with
  the element's index. The callbacks of the store read the clock (\<^verbatim>\<open>new Date()\<close>) when
  they run; a function of the index gives them that reading.
\<close>

fun map_indexed :: "(nat \<Rightarrow> 'a \<Rightarrow> 'b) \<Rightarrow> nat \<Rightarrow> 'a list \<Rightarrow> 'b list" where
  "map_indexed f i [] = []"
| "map_indexed f i (x # xs) = f i x # map_indexed f (Suc i) xs"

text \<open>The getters \<^verbatim>\<open>getTodoById\<close> and \<^verbatim>\<open>getCategoryById\<close>: the first element found.\<close>

definition getTodoById :: "string \<Rightarrow> TodoStore \<Rightarrow> Todo option" where
  "getTodoById i st = find (\<lambda>todo. todo_id todo = i) (todos st)"

definition getCategoryById :: "string \<Rightarrow> TodoStore \<Rightarrow> Category option" where
  "getCategoryById i st = find (\<lambda>c. cat_id c = i) (categories st)"

subsection \<open>Notifications\<close>

text \<open>The truthiness of an optional number and of an optional boolean.\<close>

definition truthy_number :: "int option \<Rightarrow> bool" where
  "truthy_number d = (case d of None \<Rightarrow> False | Some n \<Rightarrow> n \<noteq> 0)"

definition truthy_bool :: "bool option \<Rightarrow> bool" where
  "truthy_bool b = (case b of None \<Rightarrow> False | Some v \<Rightarrow> v)"

text \<open>
  \<^verbatim>\<open>addNotification\<close>. The first argument is the string \<^verbatim>\<open>generateId()\<close> returns.
  \<^verbatim>\<open>notification.duration || 5000\<close> takes 5000 for every falsy duration. When the notification is not persistent and the
  new duration is truthy, a timer is registered that removes the notification.
\<close>

definition addNotification :: "string \<Rightarrow> NotificationInput \<Rightarrow> TodoStore \<Rightarrow> TodoStore" where
  "addNotification newId notification st =
     (let newNotification =
            \<lparr>notif_type = notif_type notification,
             notif_title = notif_title notification,
             message = message notification,
             duration =
               (if truthy_number (duration notification) then duration notification
                else Some 5000),
             persistent = persistent notification,
             notif_id = newId\<rparr>;
          st1 = st\<lparr>notifications := notifications st @ [newNotification]\<rparr>
      in if \<not> truthy_bool (persistent notification) \<and> truthy_number (duration newNotification)
         then st1\<lparr>timers := timers st1 @ [(notif_id newNotification, the (duration newNotification))]\<rparr>
         else st1)"

definition removeNotification :: "string \<Rightarrow> TodoStore \<Rightarrow> TodoStore" where
  "removeNotification i st =
     st\<lparr>notifications := filter (\<lambda>notif. notif_id notif \<noteq> i) (notifications st)\<rparr>"

text \<open>
  A registered timer runs: its callback is \<^verbatim>\<open>get().removeNotification(newNotification.id)\<close>.
\<close>

definition timerFires :: "string \<times> int \<Rightarrow> TodoStore \<Rightarrow> TodoStore" where
  "timerFires tm st = removeNotification (fst tm) (st\<lparr>timers := remove1 tm (timers st)\<rparr>)"

subsection \<open>Todo actions\<close>

text \<open>
  \<^verbatim>\<open>addTodo\<close>. The arguments before the draft are what the environment returns during
  the call, in the order of the calls: \<^verbatim>\<open>generateId()\<close> for the todo, \<^verbatim>\<open>new Date()\<close>
  for \<^verbatim>\<open>createdAt\<close>, \<^verbatim>\<open>new Date()\<close> for \<^verbatim>\<open>updatedAt\<close>, and \<^verbatim>\<open>generateId()\<close> for
  the notification.
\<close>

definition quoted :: "string \<Rightarrow> string" where
  "quoted s = CHR 0x22 # s @ [CHR 0x22]"

definition addTodo ::
  "string \<Rightarrow> Date \<Rightarrow> Date \<Rightarrow> string \<Rightarrow> CreateTodoForm \<Rightarrow> TodoStore \<Rightarrow> TodoStore" where
  "addTodo newId created updated notifId todoData st =
     (let newTodo =
            \<lparr>title = title todoData, description = description todoData,
             priority = priority todoData, category = category todoData,
             dueDate = dueDate todoData, tags = tags todoData,
             todo_id = newId, completed = False, createdAt = created, updatedAt = updated\<rparr>;
          st1 = st\<lparr>todos := todos st @ [newTodo]\<rparr>
      in addNotification notifId
           \<lparr>notif_type = Success, notif_title = ''Todo created'',
            message = Some (quoted (title newTodo) @ '' has been added to your list''),
            duration = Some 3000, persistent = None\<rparr> st1)"

text \<open>The spread \<^verbatim>\<open>{ ...todo, ...updates, updatedAt: new Date() }\<close>.\<close>

definition applyUpdates :: "Todo \<Rightarrow> UpdateTodoForm \<Rightarrow> Date \<Rightarrow> Todo" where
  "applyUpdates todo updates now =
     todo\<lparr>title := (case upd_title updates of None \<Rightarrow> title todo | Some v \<Rightarrow> v),
          description :=
            (case upd_description updates of None \<Rightarrow> description todo | Some v \<Rightarrow> v),
          priority := (case upd_priority updates of None \<Rightarrow> priority todo | Some v \<Rightarrow> v),
          category := (case upd_category updates of None \<Rightarrow> category todo | Some v \<Rightarrow> v),
          dueDate := (case upd_dueDate updates of None \<Rightarrow> dueDate todo | Some v \<Rightarrow> v),
          tags := (case upd_tags updates of None \<Rightarrow> tags todo | Some v \<Rightarrow> v),
          completed := (case upd_completed updates of None \<Rightarrow> completed todo | Some v \<Rightarrow> v),
          updatedAt := now\<rparr>"

text \<open>
  \<^verbatim>\<open>updateTodo\<close>. \<open>now k\<close> is the clock reading when the callback of \<^verbatim>\<open>map\<close> runs on
  the element at index \<open>k\<close>.
\<close>

definition updateTodo ::
  "(nat \<Rightarrow> Date) \<Rightarrow> string \<Rightarrow> string \<Rightarrow> UpdateTodoForm \<Rightarrow> TodoStore \<Rightarrow> TodoStore" where
  "updateTodo now notifId i updates st =
     (let st1 = st\<lparr>todos :=
            map_indexed
              (\<lambda>k todo. if todo_id todo = i then applyUpdates todo updates (now k) else todo)
              0 (todos st)\<rparr>
      in case getTodoById i st1 of
           None \<Rightarrow> st1
         | Some todo \<Rightarrow>
             addNotification notifId
               \<lparr>notif_type = Success, notif_title = ''Todo updated'',
                message = Some (quoted (title todo) @ '' has been updated''),
                duration = Some 2000, persistent = None\<rparr> st1)"

text \<open>
  \<^verbatim>\<open>toggleTodo\<close>. The two identifiers are those generated for the notification of the
  inner \<^verbatim>\<open>updateTodo\<close> and for the notification of \<^verbatim>\<open>toggleTodo\<close>.
\<close>

definition toggleTodo ::
  "(nat \<Rightarrow> Date) \<Rightarrow> string \<Rightarrow> string \<Rightarrow> string \<Rightarrow> TodoStore \<Rightarrow> TodoStore" where
  "toggleTodo now notifId1 notifId2 i st =
     (case getTodoById i st of
        None \<Rightarrow> st
      | Some todo \<Rightarrow>
          (let newCompletedState = \<not> completed todo;
               st1 = updateTodo now notifId1 i
                       \<lparr>upd_title = None, upd_description = None, upd_priority = None,
                        upd_category = None, upd_dueDate = None, upd_tags = None,
                        upd_completed = Some newCompletedState\<rparr> st
           in addNotification notifId2
                \<lparr>notif_type = Success,
                 notif_title = (if newCompletedState then ''Todo completed'' else ''Todo reopened''),
                 message = Some (quoted (title todo) @ '' marked as '' @
                   (if newCompletedState then ''completed'' else ''pending'')),
                 duration = Some 2000, persistent = None\<rparr> st1))"

subsection \<open>Category actions\<close>

text \<open>
  \<^verbatim>\<open>deleteCategory\<close>: the category is looked up first, then one \<^verbatim>\<open>set\<close> filters the
  categories and maps the todos, then the notification is added if the category existed.
\<close>

definition deleteCategory :: "(nat \<Rightarrow> Date) \<Rightarrow> string \<Rightarrow> string \<Rightarrow> TodoStore \<Rightarrow> TodoStore" where
  "deleteCategory now notifId i st =
     (let cat = getCategoryById i st;
          st1 = st\<lparr>categories := filter (\<lambda>c. cat_id c \<noteq> i) (categories st),
                   todos :=
                     map_indexed
                       (\<lambda>k todo. if category todo = i
                          then todo\<lparr>category := ''personal'', updatedAt := now k\<rparr>
                          else todo)
                       0 (todos st)\<rparr>
      in case cat of
           None \<Rightarrow> st1
         | Some c \<Rightarrow>
             addNotification notifId
               \<lparr>notif_type = Warning, notif_title = ''Category deleted'',
                message = Some (quoted (cat_name c) @
                  '' category has been removed. Todos moved to Personal.''),
                duration = Some 3000, persistent = None\<rparr> st1)"

subsection \<open>Import\<close>

text \<open>
  The values \<^verbatim>\<open>JSON.parse\<close> returns. An object is the list of its properties, each key
  once.
\<close>

datatype json =
  JNull
| JBool bool
| JNumber int
| JString string
| JArray "json list"
| JObject "(string \<times> json) list"

text \<open>
  Reading the property \<^verbatim>\<open>todos\<close> or \<^verbatim>\<open>categories\<close> of a parsed value: reading from
  \<^verbatim>\<open>null\<close> throws a \<^verbatim>\<open>TypeError\<close> (\<open>None\<close>); a number, a string, a boolean and an array
  have no such property (\<^verbatim>\<open>undefined\<close>, \<open>Some None\<close>); an object gives the property's
  value if it has the key.
\<close>

fun get_property :: "json \<Rightarrow> string \<Rightarrow> json option option" where
  "get_property JNull key = None"
| "get_property (JObject props) key = Some (map_of props key)"
| "get_property v key = Some None"

text \<open>
  \<^verbatim>\<open>data.todos && Array.isArray(data.todos)\<close>: an array is truthy, so the condition
  holds exactly for an array; the result is its elements.
\<close>

fun array_elements :: "json option \<Rightarrow> json list option" where
  "array_elements (Some (JArray xs)) = Some xs"
| "array_elements v = None"

definition importFailed :: NotificationInput where
  "importFailed =
     \<lparr>notif_type = Error, notif_title = ''Import failed'',
      message = Some ''Failed to import data. Please check the file format.'',
      duration = Some 5000, persistent = None\<rparr>"

definition importSucceeded :: NotificationInput where
  "importSucceeded =
     \<lparr>notif_type = Success, notif_title = ''Data imported'',
      message = Some ''Your data has been successfully imported'',
      duration = Some 3000, persistent = None\<rparr>"

text \<open>
  \<^verbatim>\<open>importData\<close>. \<^verbatim>\<open>JSON.parse\<close> is the runtime's and is a parameter: \<open>None\<close> when it
  throws a \<^verbatim>\<open>SyntaxError\<close>. The parsed elements are spread into the collections without
  any check (the parsed value has the type \<^verbatim>\<open>any\<close>); \<open>asTodo\<close> and \<open>asCategory\<close> say how
  such an element is read as a todo and as a category. The \<^verbatim>\<open>catch\<close> block is reached
  when \<^verbatim>\<open>JSON.parse\<close> or a property read throws; what was changed before stays changed.
\<close>

definition importData ::
  "(string \<Rightarrow> json option) \<Rightarrow> (json \<Rightarrow> Todo) \<Rightarrow> (json \<Rightarrow> Category) \<Rightarrow> string \<Rightarrow> string
     \<Rightarrow> TodoStore \<Rightarrow> TodoStore" where
  "importData JSON_parse asTodo asCategory notifId dataString st =
     (case JSON_parse dataString of
        None \<Rightarrow> addNotification notifId importFailed st
      | Some data \<Rightarrow>
          (case get_property data ''todos'' of
             None \<Rightarrow> addNotification notifId importFailed st
           | Some data_todos \<Rightarrow>
               (let st1 =
                      (case array_elements data_todos of
                         Some xs \<Rightarrow> st\<lparr>todos := todos st @ map asTodo xs\<rparr>
                       | None \<Rightarrow> st)
                in case get_property data ''categories'' of
                     None \<Rightarrow> addNotification notifId importFailed st1
                   | Some data_categories \<Rightarrow>
                       (let st2 =
                              (case array_elements data_categories of
                                 Some ys \<Rightarrow>
                                   st1\<lparr>categories := categories st1 @ map asCategory ys\<rparr>
                               | None \<Rightarrow> st1)
                        in addNotification notifId importSucceeded st2))))"

section \<open>Example data\<close>

text \<open>
  Two todos (an urgent open one with a due date, a low completed one without), a second
  copy of the first under the same identifier but completed, a draft, a category, and
  the initial store holding the two todos. The identifiers of the todos have the shape
  of the strings \<^verbatim>\<open>generateId\<close> builds (base-36 digits of a random number followed by
  those of the clock); the identifiers of notifications are written short.
\<close>

definition exampleTodoA :: Todo where
  "exampleTodoA =
     \<lparr>title = ''A'', description = None, priority = URGENT, category = ''personal'',
      dueDate = Some 1000, tags = [], todo_id = ''4fzyo82mvyrloyw3v28'', completed = False,
      createdAt = 1, updatedAt = 1\<rparr>"

definition exampleTodoB :: Todo where
  "exampleTodoB =
     \<lparr>title = ''B'', description = Some ''Buy milk'', priority = LOW, category = ''work'',
      dueDate = None, tags = [''home''], todo_id = ''k1x9q0c7abeloyw3v5t'', completed = True,
      createdAt = 2, updatedAt = 2\<rparr>"

definition exampleTodoA2 :: Todo where
  "exampleTodoA2 =
     \<lparr>title = ''A'', description = None, priority = URGENT, category = ''personal'',
      dueDate = Some 1000, tags = [], todo_id = ''4fzyo82mvyrloyw3v28'', completed = True,
      createdAt = 1, updatedAt = 5\<rparr>"

definition exampleDraft :: CreateTodoForm where
  "exampleDraft =
     \<lparr>title = ''C'', description = None, priority = MEDIUM, category = ''work'',
      dueDate = None, tags = []\<rparr>"

definition exampleCategory :: Category where
  "exampleCategory =
     \<lparr>cat_id = ''garden'', cat_name = ''Garden'', cat_color = ''#00FF00'', cat_icon = None,
      cat_createdAt = 3\<rparr>"

definition exampleStore :: TodoStore where
  "exampleStore = (initialStore 0)\<lparr>todos := [exampleTodoA, exampleTodoB]\<rparr>"

text \<open>
  What \<^verbatim>\<open>JSON.parse\<close> does on the three inputs the examples use: \<^verbatim>\<open>{}\<close> is the object
  without properties, \<^verbatim>\<open>null\<close> is \<^verbatim>\<open>null\<close>, and \<^verbatim>\<open>not json\<close> is a syntax error.
\<close>

definition exampleParse :: "string \<Rightarrow> json option" where
  "exampleParse s =
     (if s = ''{}'' then Some (JObject [])
      else if s = ''null'' then Some JNull
      else None)"



section \<open>Properties of sorting\<close>

lemma mset_sort_insert: "mset (sort_insert cmp x xs) = add_mset x (mset xs)"
  by (induction xs) auto

lemma mset_Array_sort: "mset (Array_sort cmp xs) = mset xs"
  by (induction xs) (auto simp: mset_sort_insert)

lemma set_sort_insert: "set (sort_insert cmp x xs) = insert x (set xs)"
  by (induction xs) auto

text \<open>
  For a comparator that is total and transitive (read as "\<open>a\<close> may stand before \<open>b\<close>"
  when \<open>cmp a b \<le> 0\<close>), the sort returns the elements in comparator order.
\<close>

lemma sorted_sort_insert:
  assumes total: "\<And>a b. cmp a b \<le> 0 \<or> cmp b a \<le> 0"
    and trans: "\<And>a b c. cmp a b \<le> 0 \<Longrightarrow> cmp b c \<le> 0 \<Longrightarrow> cmp a c \<le> 0"
    and sorted: "sorted_wrt (\<lambda>a b. cmp a b \<le> 0) xs"
  shows "sorted_wrt (\<lambda>a b. cmp a b \<le> 0) (sort_insert cmp x xs)"
  using sorted
proof (induction xs)
  case Nil
  then show ?case by simp
next
  case (Cons y ys)
  show ?case
  proof (cases "cmp x y \<le> 0")
    case True
    with Cons.prems trans show ?thesis by auto
  next
    case False
    with total have "cmp y x \<le> 0" by blast
    with False Cons show ?thesis by (auto simp: set_sort_insert)
  qed
qed

lemma sorted_Array_sort:
  assumes total: "\<And>a b. cmp a b \<le> 0 \<or> cmp b a \<le> 0"
    and trans: "\<And>a b c. cmp a b \<le> 0 \<Longrightarrow> cmp b c \<le> 0 \<Longrightarrow> cmp a c \<le> 0"
  shows "sorted_wrt (\<lambda>a b. cmp a b \<le> 0) (Array_sort cmp xs)"
  by (induction xs) (auto intro: sorted_sort_insert [OF total trans])

lemma compare_priority_total:
  "compareTodos lc ByPriority ord a b \<le> 0 \<or> compareTodos lc ByPriority ord b a \<le> 0"
  by (auto simp: compareTodos_def Let_def)

lemma compare_priority_trans:
  "compareTodos lc ByPriority ord a b \<le> 0 \<Longrightarrow> compareTodos lc ByPriority ord b c \<le> 0
    \<Longrightarrow> compareTodos lc ByPriority ord a c \<le> 0"
  by (auto simp: compareTodos_def Let_def split: if_splits)




lemma sortTodos_priority_sorted:
  "sorted_wrt (\<lambda>a b. compareTodos lc ByPriority ord a b \<le> 0) (sortTodos lc xs ByPriority ord)"
  unfolding sortTodos_def
  by (rule sorted_Array_sort) (rule compare_priority_total, rule compare_priority_trans)

text \<open>
  Claim C5. Sorting by priority with direction 'asc' orders the items by descending
  priority rank (urgent before high before medium before low), since the comparator is
  the rank of \<open>b\<close> minus the rank of \<open>a\<close> before the direction flip; direction 'desc'
  yields ascending rank. In both directions the result is a rearrangement of the input.
  The ranks are low = 1, medium = 2, high = 3, urgent = 4.
\<close>

theorem sortTodos_priority_order:
  "sorted_wrt (\<lambda>a b. getPriorityValue (priority a) \<ge> getPriorityValue (priority b))
     (sortTodos lc xs ByPriority Asc)
   \<and> sorted_wrt (\<lambda>a b. getPriorityValue (priority a) \<le> getPriorityValue (priority b))
     (sortTodos lc xs ByPriority Desc)
   \<and> mset (sortTodos lc xs ByPriority Asc) = mset xs
   \<and> mset (sortTodos lc xs ByPriority Desc) = mset xs
   \<and> getPriorityValue LOW = 1 \<and> getPriorityValue MEDIUM = 2
   \<and> getPriorityValue HIGH = 3 \<and> getPriorityValue URGENT = 4"
proof -
  have asc: "sorted_wrt (\<lambda>a b. getPriorityValue (priority a) \<ge> getPriorityValue (priority b))
      (sortTodos lc xs ByPriority Asc)"
    using sortTodos_priority_sorted [of lc Asc xs] by (simp add: compareTodos_def)
  have desc: "sorted_wrt (\<lambda>a b. getPriorityValue (priority a) \<le> getPriorityValue (priority b))
      (sortTodos lc xs ByPriority Desc)"
    using sortTodos_priority_sorted [of lc Desc xs] by (simp add: compareTodos_def)
  from asc desc show ?thesis
    by (simp add: sortTodos_def mset_Array_sort)
qed

text \<open>
  The theorem on the low completed todo followed by the urgent open one: 'asc' puts the
  urgent one first, 'desc' the low one.
\<close>

theorem sortTodos_priority_order_witness:
  "sortTodos (\<lambda>s t. 0) [exampleTodoB, exampleTodoA] ByPriority Asc
     = [exampleTodoA, exampleTodoB]
   \<and> sortTodos (\<lambda>s t. 0) [exampleTodoA, exampleTodoB] ByPriority Desc
     = [exampleTodoB, exampleTodoA]
   \<and> sorted_wrt (\<lambda>a b. getPriorityValue (priority a) \<ge> getPriorityValue (priority b))
     (sortTodos (\<lambda>s t. 0) [exampleTodoB, exampleTodoA] ByPriority Asc)
   \<and> sorted_wrt (\<lambda>a b. getPriorityValue (priority a) \<le> getPriorityValue (priority b))
     (sortTodos (\<lambda>s t. 0) [exampleTodoA, exampleTodoB] ByPriority Desc)"
  using sortTodos_priority_order [of "\<lambda>s t. 0" "[exampleTodoB, exampleTodoA]"]
    sortTodos_priority_order [of "\<lambda>s t. 0" "[exampleTodoA, exampleTodoB]"]
  by (simp add: sortTodos_def compareTodos_def exampleTodoA_def exampleTodoB_def)




section \<open>Properties of filtering\<close>

















section \<open>Properties of the statistics\<close>

lemma foldl_countTodo_total: "total (foldl (countTodo ip it) s xs) = total s"
  by (induction xs arbitrary: s) (simp_all add: countTodo_def Let_def)

lemma foldl_countTodo_status:
  "completed_stat (foldl (countTodo ip it) s xs) + pending (foldl (countTodo ip it) s xs)
     = completed_stat s + pending s + length xs"
  by (induction xs arbitrary: s) (simp_all add: countTodo_def Let_def)

lemma byPriority_countTodo:
  "byPriority (countTodo ip it s todo) = increment (byPriority s) (priority todo)"
  by (simp add: countTodo_def Let_def)

text \<open>A bucket that holds a count keeps holding one, raised by the items of its priority.\<close>

lemma foldl_countTodo_byPriority:
  "byPriority s p = Some (Num n) \<Longrightarrow>
   byPriority (foldl (countTodo ip it) s xs) p
     = Some (Num (n + length (filter (\<lambda>todo. priority todo = p) xs)))"
proof (induction xs arbitrary: s n)
  case Nil
  then show ?case by simp
next
  case (Cons x xs)
  show ?case
  proof (cases "priority x = p")
    case True
    with Cons.prems have "byPriority (countTodo ip it s x) p = Some (Num (n + 1))"
      by (simp add: byPriority_countTodo increment_def)
    from Cons.IH [OF this] True show ?thesis by simp
  next
    case False
    with Cons.prems have "byPriority (countTodo ip it s x) p = Some (Num n)"
      by (simp add: byPriority_countTodo increment_def)
    from Cons.IH [OF this] False show ?thesis by simp
  qed
qed

lemma byPriority_calculateTodoStats:
  "byPriority (calculateTodoStats ip it xs) p
     = Some (Num (length (filter (\<lambda>todo. priority todo = p) xs)))"
proof -
  have "byPriority (initialStats xs) p = Some (Num 0)"
    by (cases p) (simp_all add: initialStats_def)
  from foldl_countTodo_byPriority [OF this] show ?thesis
    by (simp add: calculateTodoStats_def)
qed

lemma length_by_priority:
  "length (filter (\<lambda>todo. priority todo = LOW) xs)
   + length (filter (\<lambda>todo. priority todo = MEDIUM) xs)
   + length (filter (\<lambda>todo. priority todo = HIGH) xs)
   + length (filter (\<lambda>todo. priority todo = URGENT) xs) = length (xs :: Todo list)"
proof (induction xs)
  case Nil
  then show ?case by simp
next
  case (Cons x xs)
  then show ?case by (cases "priority x") simp_all
qed

text \<open>
  Claim C7. For every list of todos the statistics satisfy completed + pending = total
  (the length of the list); each of the four priority buckets holds a count, and the
  four counts add up to the total; for the empty list the four buckets hold zero.
\<close>

theorem calculateTodoStats_invariants:
  "completed_stat (calculateTodoStats ip it xs) + pending (calculateTodoStats ip it xs)
     = total (calculateTodoStats ip it xs)
   \<and> total (calculateTodoStats ip it xs) = length xs
   \<and> (\<exists>l m h u.
        byPriority (calculateTodoStats ip it xs) LOW = Some (Num l)
      \<and> byPriority (calculateTodoStats ip it xs) MEDIUM = Some (Num m)
      \<and> byPriority (calculateTodoStats ip it xs) HIGH = Some (Num h)
      \<and> byPriority (calculateTodoStats ip it xs) URGENT = Some (Num u)
      \<and> l + m + h + u = total (calculateTodoStats ip it xs))
   \<and> byPriority (calculateTodoStats ip it []) LOW = Some (Num 0)
   \<and> byPriority (calculateTodoStats ip it []) MEDIUM = Some (Num 0)
   \<and> byPriority (calculateTodoStats ip it []) HIGH = Some (Num 0)
   \<and> byPriority (calculateTodoStats ip it []) URGENT = Some (Num 0)"
proof -
  have tot: "total (calculateTodoStats ip it xs) = length xs"
    by (simp add: calculateTodoStats_def foldl_countTodo_total initialStats_def)
  have "completed_stat (calculateTodoStats ip it xs) + pending (calculateTodoStats ip it xs) = length xs"
    using foldl_countTodo_status [of ip it "initialStats xs" xs]
    by (simp add: calculateTodoStats_def initialStats_def)
  with tot length_by_priority [of xs] show ?thesis
    by (simp add: byPriority_calculateTodoStats)
qed

text \<open>
  The theorem on the two example todos: total 2, completed 1, pending 1, one urgent and
  one low item, no medium and no high one.
\<close>

theorem calculateTodoStats_invariants_witness:
  "total (calculateTodoStats (\<lambda>d. True) (\<lambda>d. False) [exampleTodoA, exampleTodoB]) = 2
   \<and> completed_stat (calculateTodoStats (\<lambda>d. True) (\<lambda>d. False) [exampleTodoA, exampleTodoB]) = 1
   \<and> pending (calculateTodoStats (\<lambda>d. True) (\<lambda>d. False) [exampleTodoA, exampleTodoB]) = 1
   \<and> map (byPriority (calculateTodoStats (\<lambda>d. True) (\<lambda>d. False) [exampleTodoA, exampleTodoB]))
        [LOW, MEDIUM, HIGH, URGENT]
      = [Some (Num 1), Some (Num 0), Some (Num 0), Some (Num 1)]
   \<and> completed_stat (calculateTodoStats (\<lambda>d. True) (\<lambda>d. False) [exampleTodoA, exampleTodoB])
      + pending (calculateTodoStats (\<lambda>d. True) (\<lambda>d. False) [exampleTodoA, exampleTodoB])
      = total (calculateTodoStats (\<lambda>d. True) (\<lambda>d. False) [exampleTodoA, exampleTodoB])"
  using calculateTodoStats_invariants [of "\<lambda>d. True" "\<lambda>d. False" "[exampleTodoA, exampleTodoB]"]
  by (simp add: calculateTodoStats_def countTodo_def initialStats_def increment_def
      countCategory_def isOverdue_def Let_def exampleTodoA_def exampleTodoB_def)

section \<open>Properties of the notification queue\<close>

lemma todos_addNotification: "todos (addNotification n notification st) = todos st"
  by (simp add: addNotification_def Let_def)

lemma categories_addNotification:
  "categories (addNotification n notification st) = categories st"
  by (simp add: addNotification_def Let_def)

lemma notifications_addNotification:
  "notifications (addNotification n notification st)
     = notifications st @
       [\<lparr>notif_type = notif_type notification, notif_title = notif_title notification,
         message = message notification,
         duration = (if truthy_number (duration notification) then duration notification
                     else Some 5000),
         persistent = persistent notification, notif_id = n\<rparr>]"
  by (simp add: addNotification_def Let_def)

text \<open>
  A persistent notification registers no timer. A notification that is not persistent
  always registers one: with its own duration when that is truthy, with 5000 when the
  duration is unspecified or zero.
\<close>

lemma addNotification_persistent_no_timer:
  "persistent notification = Some True \<Longrightarrow>
   timers (addNotification n notification st) = timers st"
  by (simp add: addNotification_def Let_def truthy_bool_def)

lemma addNotification_not_persistent_timer:
  "\<not> truthy_bool (persistent notification) \<Longrightarrow>
   timers (addNotification n notification st)
     = timers st @
       [(n, if truthy_number (duration notification) then the (duration notification)
            else 5000)]"
  by (simp add: addNotification_def Let_def truthy_number_def)

lemma addNotification_default_duration:
  "map duration (notifications (addNotification n (notification\<lparr>duration := None\<rparr>) st))
     = map duration (notifications st) @ [Some 5000]"
  by (simp add: addNotification_def Let_def truthy_number_def)

text \<open>
  Claim C2, evaluated on a notification with duration 0 that is not persistent. The claim
  says the timer path never removes it. In the code \<^verbatim>\<open>notification.duration || 5000\<close>
  replaces the zero by 5000, the test \<^verbatim>\<open>newNotification.duration\<close> then succeeds, a
  timer with delay 5000 is registered, and when it runs the notification is removed.
\<close>

theorem addNotification_zero_duration_timer:
  "map duration
     (notifications
        (addNotification ''n1''
           \<lparr>notif_type = Info, notif_title = ''Saved'', message = None,
            duration = Some 0, persistent = None\<rparr> (initialStore 0)))
     = [Some 5000]
   \<and> timers
       (addNotification ''n1''
          \<lparr>notif_type = Info, notif_title = ''Saved'', message = None,
           duration = Some 0, persistent = None\<rparr> (initialStore 0))
     = [(''n1'', 5000)]
   \<and> notifications
       (timerFires (''n1'', 5000)
          (addNotification ''n1''
             \<lparr>notif_type = Info, notif_title = ''Saved'', message = None,
              duration = Some 0, persistent = None\<rparr> (initialStore 0)))
     = []"
  by (simp add: addNotification_def timerFires_def removeNotification_def initialStore_def
      truthy_number_def truthy_bool_def Let_def)

section \<open>Properties of the todo actions\<close>

text \<open>
  Looking up by a predicate that the callback of \<^verbatim>\<open>map\<close> does not change: what was
  found before the map is found after it, as the callback left it.
\<close>

lemma find_map_indexed:
  assumes "\<And>k x. P (f k x) = P x"
    and "find P xs = Some t"
  shows "\<exists>j. find P (map_indexed f k xs) = Some (f j t)"
  using assms(2)
proof (induction xs arbitrary: k)
  case Nil
  then show ?case by simp
next
  case (Cons x xs)
  show ?case
  proof (cases "P x")
    case True
    with Cons.prems have "x = t" by simp
    with True assms(1) show ?thesis by auto
  next
    case False
    with Cons.prems have "find P xs = Some t" by simp
    from Cons.IH [OF this, of "Suc k"] False assms(1) show ?thesis by simp
  qed
qed

lemma find_member:
  "t \<in> set xs \<Longrightarrow> \<exists>y. find (\<lambda>x. g x = g t) xs = Some y"
  by (cases "find (\<lambda>x. g x = g t) xs") (auto simp: find_None_iff)

lemma find_distinct:
  "distinct (map g xs) \<Longrightarrow> t \<in> set xs \<Longrightarrow> find (\<lambda>x. g x = g t) xs = Some t"
  by (induction xs) (auto simp: image_iff)

lemma find_append_new:
  "\<forall>x \<in> set xs. \<not> P x \<Longrightarrow> P y \<Longrightarrow> find P (xs @ [y]) = Some y"
  by (induction xs) simp_all

lemma todos_updateTodo:
  "todos (updateTodo now n i updates st)
     = map_indexed
         (\<lambda>k todo. if todo_id todo = i then applyUpdates todo updates (now k) else todo)
         0 (todos st)"
  by (simp add: updateTodo_def Let_def todos_addNotification split: option.split)

lemma todo_id_applyUpdates: "todo_id (applyUpdates todo updates t) = todo_id todo"
  by (simp add: applyUpdates_def)

lemma find_updated:
  assumes "find (\<lambda>x. todo_id x = i) xs = Some todo"
  shows "\<exists>j. find (\<lambda>x. todo_id x = i)
          (map_indexed
             (\<lambda>k x. if todo_id x = i then applyUpdates x updates (now k) else x) 0 xs)
        = Some (applyUpdates todo updates (now j))"
proof -
  let ?f = "\<lambda>k x. if todo_id x = i then applyUpdates x updates (now k) else x"
  have "\<And>k x. (todo_id (?f k x) = i) = (todo_id x = i)"
    by (simp add: todo_id_applyUpdates)
  from find_map_indexed [of "\<lambda>x. todo_id x = i" ?f, OF this assms, of 0]
  obtain j where "find (\<lambda>x. todo_id x = i) (map_indexed ?f 0 xs) = Some (?f j todo)"
    by blast
  moreover from assms have "todo_id todo = i"
    by (auto dest: find_Some_iff [THEN iffD1])
  ultimately show ?thesis by auto
qed

lemma getTodoById_updateTodo:
  assumes "getTodoById i st = Some todo"
  shows "\<exists>j. getTodoById i (updateTodo now n i updates st)
           = Some (applyUpdates todo updates (now j))"
  using find_updated [of i "todos st" todo updates now] assms
  by (simp add: getTodoById_def todos_updateTodo)

lemma notifications_updateTodo:
  assumes "getTodoById i st = Some todo"
  shows "\<exists>a. notifications (updateTodo now n i updates st) = notifications st @ [a]
           \<and> notif_title a = ''Todo updated'' \<and> notif_type a = Success \<and> notif_id a = n"
proof -
  from find_updated [of i "todos st" todo updates now] assms
  obtain y where "find (\<lambda>x. todo_id x = i)
          (map_indexed
             (\<lambda>k x. if todo_id x = i then applyUpdates x updates (now k) else x) 0 (todos st))
        = Some y"
    by (auto simp: getTodoById_def)
  then show ?thesis
    by (simp add: updateTodo_def Let_def notifications_addNotification getTodoById_def)
qed

lemma getTodoById_toggleTodo:
  assumes "getTodoById i st = Some todo"
  shows "\<exists>j. getTodoById i (toggleTodo now n1 n2 i st)
           = Some (todo\<lparr>completed := \<not> completed todo, updatedAt := now j\<rparr>)"
proof -
  let ?upd = "\<lparr>upd_title = None, upd_description = None, upd_priority = None,
      upd_category = None, upd_dueDate = None, upd_tags = None,
      upd_completed = Some (\<not> completed todo)\<rparr>"
  from getTodoById_updateTodo [OF assms, of now n1 ?upd]
  obtain j where "getTodoById i (updateTodo now n1 i ?upd st)
      = Some (applyUpdates todo ?upd (now j))" by blast
  then have "getTodoById i (toggleTodo now n1 n2 i st)
      = Some (todo\<lparr>completed := \<not> completed todo, updatedAt := now j\<rparr>)"
    using assms
    by (simp add: toggleTodo_def Let_def getTodoById_def todos_addNotification applyUpdates_def)
  then show ?thesis by blast
qed

text \<open>
  Claim C10. For every item present in the store, one \<^verbatim>\<open>toggleTodo\<close> call on its id
  appends exactly two notifications to the list: first the one of the inner
  \<^verbatim>\<open>updateTodo\<close>, titled 'Todo updated', then the one of \<^verbatim>\<open>toggleTodo\<close> itself, titled
  'Todo completed' or 'Todo reopened' according to the completion flag the item found
  under that id has after the call.
\<close>

theorem toggleTodo_two_notifications:
  assumes "t \<in> set (todos st)"
  shows "\<exists>a b todo'.
      notifications (toggleTodo now n1 n2 (todo_id t) st) = notifications st @ [a, b]
    \<and> notif_title a = ''Todo updated''
    \<and> getTodoById (todo_id t) (toggleTodo now n1 n2 (todo_id t) st) = Some todo'
    \<and> notif_title b = (if completed todo' then ''Todo completed'' else ''Todo reopened'')"
proof -
  from assms obtain todo where found: "getTodoById (todo_id t) st = Some todo"
    using find_member [of t "todos st" todo_id] by (auto simp: getTodoById_def)
  let ?upd = "\<lparr>upd_title = None, upd_description = None, upd_priority = None,
      upd_category = None, upd_dueDate = None, upd_tags = None,
      upd_completed = Some (\<not> completed todo)\<rparr>"
  let ?st1 = "updateTodo now n1 (todo_id t) ?upd st"
  from notifications_updateTodo [OF found, of now n1 ?upd]
  obtain a where a: "notifications ?st1 = notifications st @ [a]"
    "notif_title a = ''Todo updated''" by blast
  from getTodoById_updateTodo [OF found, of now n1 ?upd]
  obtain j where j: "getTodoById (todo_id t) ?st1 = Some (applyUpdates todo ?upd (now j))"
    by blast
  have c: "completed (applyUpdates todo ?upd (now j)) = (\<not> completed todo)"
    by (simp add: applyUpdates_def)
  show ?thesis
    using found a j c
    by (simp add: toggleTodo_def Let_def notifications_addNotification getTodoById_def
        todos_addNotification)
qed

text \<open>
  The theorem on the example store: toggling the open todo appends 'Todo updated' and
  'Todo completed'.
\<close>

theorem toggleTodo_two_notifications_witness:
  "exampleTodoA \<in> set (todos exampleStore)
   \<and> notifications exampleStore = []
   \<and> map notif_title
       (notifications (toggleTodo (\<lambda>k. 7) ''n1'' ''n2'' (todo_id exampleTodoA) exampleStore))
     = [''Todo updated'', ''Todo completed'']
   \<and> map completed
       (todos (toggleTodo (\<lambda>k. 7) ''n1'' ''n2'' (todo_id exampleTodoA) exampleStore))
     = [True, True]
   \<and> (\<exists>a b todo'.
        notifications (toggleTodo (\<lambda>k. 7) ''n1'' ''n2'' (todo_id exampleTodoA) exampleStore)
          = notifications exampleStore @ [a, b]
      \<and> notif_title a = ''Todo updated''
      \<and> getTodoById (todo_id exampleTodoA)
          (toggleTodo (\<lambda>k. 7) ''n1'' ''n2'' (todo_id exampleTodoA) exampleStore) = Some todo'
      \<and> notif_title b = (if completed todo' then ''Todo completed'' else ''Todo reopened''))"
proof -
  have h: "exampleTodoA \<in> set (todos exampleStore)"
    by (simp add: exampleStore_def)
  have e: "notifications exampleStore = []
   \<and> map notif_title
       (notifications (toggleTodo (\<lambda>k. 7) ''n1'' ''n2'' (todo_id exampleTodoA) exampleStore))
     = [''Todo updated'', ''Todo completed'']
   \<and> map completed
       (todos (toggleTodo (\<lambda>k. 7) ''n1'' ''n2'' (todo_id exampleTodoA) exampleStore))
     = [True, True]"
    by (simp add: toggleTodo_def updateTodo_def addNotification_def getTodoById_def
        applyUpdates_def exampleStore_def initialStore_def exampleTodoA_def exampleTodoB_def
        truthy_number_def truthy_bool_def Let_def)
  show ?thesis
    using toggleTodo_two_notifications [OF h, of "\<lambda>k. 7" "''n1''" "''n2''"] h e
    by blast
qed

text \<open>
  Claim C9, as amended. For every item that \<^verbatim>\<open>getTodoById\<close> returns for its id - the
  first item of the store with that id, and so every item of a store whose identifiers
  are pairwise distinct - one \<^verbatim>\<open>toggleTodo\<close> call on its id flips the completion flag
  and a second one restores it; after the two calls the item found under the id differs
  from the original at most in its last-modified timestamp.
\<close>

theorem toggleTodo_twice:
  "(t \<in> set (todos st) \<and> distinct (map todo_id (todos st))
      \<longrightarrow> getTodoById (todo_id t) st = Some t)
   \<and> (getTodoById (todo_id t) st = Some t \<longrightarrow>
        (\<exists>t1 t2 u.
           getTodoById (todo_id t) (toggleTodo now1 n1 n2 (todo_id t) st) = Some t1
         \<and> completed t1 = (\<not> completed t)
         \<and> getTodoById (todo_id t)
             (toggleTodo now2 n3 n4 (todo_id t) (toggleTodo now1 n1 n2 (todo_id t) st))
             = Some t2
         \<and> completed t2 = completed t
         \<and> t2 = t\<lparr>updatedAt := u\<rparr>))"
proof (intro conjI impI)
  assume "t \<in> set (todos st) \<and> distinct (map todo_id (todos st))"
  then show "getTodoById (todo_id t) st = Some t"
    by (simp add: getTodoById_def find_distinct)
next
  assume found: "getTodoById (todo_id t) st = Some t"
  let ?st1 = "toggleTodo now1 n1 n2 (todo_id t) st"
  from getTodoById_toggleTodo [OF found, of now1 n1 n2]
  obtain j where 1: "getTodoById (todo_id t) ?st1
      = Some (t\<lparr>completed := \<not> completed t, updatedAt := now1 j\<rparr>)" by blast
  from getTodoById_toggleTodo [OF 1, of now2 n3 n4]
  obtain k where 2: "getTodoById (todo_id t) (toggleTodo now2 n3 n4 (todo_id t) ?st1)
      = Some (t\<lparr>updatedAt := now2 k\<rparr>)" by auto
  from 1 2 show "\<exists>t1 t2 u.
           getTodoById (todo_id t) ?st1 = Some t1
         \<and> completed t1 = (\<not> completed t)
         \<and> getTodoById (todo_id t) (toggleTodo now2 n3 n4 (todo_id t) ?st1) = Some t2
         \<and> completed t2 = completed t
         \<and> t2 = t\<lparr>updatedAt := u\<rparr>"
    by (intro exI [of _ "t\<lparr>completed := \<not> completed t, updatedAt := now1 j\<rparr>"]
        exI [of _ "t\<lparr>updatedAt := now2 k\<rparr>"] exI [of _ "now2 k"]) simp
qed

text \<open>
  The theorem on the example store, whose two identifiers differ: toggling the completed
  todo twice, at times 7 and 9, gives it back with the last-modified timestamp 9.
\<close>

theorem toggleTodo_twice_witness:
  "exampleTodoB \<in> set (todos exampleStore)
   \<and> distinct (map todo_id (todos exampleStore))
   \<and> getTodoById (todo_id exampleTodoB) exampleStore = Some exampleTodoB
   \<and> getTodoById (todo_id exampleTodoB)
       (toggleTodo (\<lambda>k. 9) ''n3'' ''n4'' (todo_id exampleTodoB)
          (toggleTodo (\<lambda>k. 7) ''n1'' ''n2'' (todo_id exampleTodoB) exampleStore))
     = Some (exampleTodoB\<lparr>updatedAt := 9\<rparr>)
   \<and> (\<exists>t1 t2 u.
         getTodoById (todo_id exampleTodoB)
           (toggleTodo (\<lambda>k. 7) ''n1'' ''n2'' (todo_id exampleTodoB) exampleStore) = Some t1
       \<and> completed t1 = (\<not> completed exampleTodoB)
       \<and> getTodoById (todo_id exampleTodoB)
           (toggleTodo (\<lambda>k. 9) ''n3'' ''n4'' (todo_id exampleTodoB)
              (toggleTodo (\<lambda>k. 7) ''n1'' ''n2'' (todo_id exampleTodoB) exampleStore))
           = Some t2
       \<and> completed t2 = completed exampleTodoB
       \<and> t2 = exampleTodoB\<lparr>updatedAt := u\<rparr>)"
proof -
  have h: "exampleTodoB \<in> set (todos exampleStore)
      \<and> distinct (map todo_id (todos exampleStore))"
    by (simp add: exampleStore_def exampleTodoA_def exampleTodoB_def)
  have e: "getTodoById (todo_id exampleTodoB)
       (toggleTodo (\<lambda>k. 9) ''n3'' ''n4'' (todo_id exampleTodoB)
          (toggleTodo (\<lambda>k. 7) ''n1'' ''n2'' (todo_id exampleTodoB) exampleStore))
     = Some (exampleTodoB\<lparr>updatedAt := 9\<rparr>)"
    by (simp add: toggleTodo_def updateTodo_def addNotification_def getTodoById_def
        applyUpdates_def exampleStore_def initialStore_def exampleTodoA_def exampleTodoB_def
        truthy_number_def truthy_bool_def Let_def)
  show ?thesis
    using toggleTodo_twice [of exampleTodoB exampleStore "\<lambda>k. 7" "''n1''" "''n2''"
        "\<lambda>k. 9" "''n3''" "''n4''"] h e
    by blast
qed

text \<open>
  The claim as stated fails in a store that holds two items under one identifier with
  different completion flags (importing appends items without comparing identifiers):
  \<^verbatim>\<open>toggleTodo\<close> reads the flag of the first item and \<^verbatim>\<open>updateTodo\<close> writes its negation
  to both. The second item is completed at the start and open after two calls.
\<close>

theorem toggleTodo_twice_duplicate_counterexample:
  "exampleTodoA2 \<in> set (todos ((initialStore 0)\<lparr>todos := [exampleTodoA, exampleTodoA2]\<rparr>))
   \<and> completed exampleTodoA2
   \<and> map completed
       (todos
          (toggleTodo (\<lambda>k. 9) ''n3'' ''n4'' (todo_id exampleTodoA2)
             (toggleTodo (\<lambda>k. 7) ''n1'' ''n2'' (todo_id exampleTodoA2)
                ((initialStore 0)\<lparr>todos := [exampleTodoA, exampleTodoA2]\<rparr>))))
     = [False, False]"
  by (simp add: toggleTodo_def updateTodo_def addNotification_def getTodoById_def
      applyUpdates_def initialStore_def exampleTodoA_def exampleTodoA2_def
      truthy_number_def truthy_bool_def Let_def)

text \<open>
  Claim C8, as amended. For every draft, if the identifier that \<^verbatim>\<open>generateId\<close> returns
  is not the identifier of an item already in the store, then \<^verbatim>\<open>addTodo\<close> followed by
  \<^verbatim>\<open>getTodoById\<close> on the new identifier returns the new item: it has that identifier
  and the fields of the draft, its completed flag is false, its creation timestamp is
  the first clock reading of the call and its last-modified timestamp the second; the
  two timestamps are equal when the two readings are.
\<close>

theorem addTodo_then_getTodoById:
  assumes "newId \<notin> todo_id ` set (todos st)"
  shows "getTodoById newId (addTodo newId created updated notifId draft st)
     = Some \<lparr>title = title draft, description = description draft,
             priority = priority draft, category = category draft,
             dueDate = dueDate draft, tags = tags draft,
             todo_id = newId, completed = False, createdAt = created, updatedAt = updated\<rparr>
   \<and> (created = updated \<longrightarrow>
        (\<exists>t. getTodoById newId (addTodo newId created updated notifId draft st) = Some t
           \<and> todo_id t = newId \<and> \<not> completed t \<and> createdAt t = updatedAt t))"
proof -
  from assms have "\<forall>x \<in> set (todos st). \<not> todo_id x = newId" by auto
  then show ?thesis
    by (simp add: addTodo_def Let_def getTodoById_def todos_addNotification find_append_new)
qed

text \<open>
  The theorem on the example store: the generated identifier is new, both clock
  readings are 10, and the lookup returns the draft as an open item stamped 10 twice.
\<close>

theorem addTodo_then_getTodoById_witness:
  "generateId ''0.z3n8u2h6wpd'' ''loyw3v9a'' \<notin> todo_id ` set (todos exampleStore)
   \<and> getTodoById (generateId ''0.z3n8u2h6wpd'' ''loyw3v9a'')
       (addTodo (generateId ''0.z3n8u2h6wpd'' ''loyw3v9a'') 10 10 ''n1'' exampleDraft
          exampleStore)
     = Some \<lparr>title = ''C'', description = None, priority = MEDIUM, category = ''work'',
             dueDate = None, tags = [], todo_id = ''z3n8u2h6wpdloyw3v9a'',
             completed = False, createdAt = 10, updatedAt = 10\<rparr>"
proof -
  have h: "generateId ''0.z3n8u2h6wpd'' ''loyw3v9a'' \<notin> todo_id ` set (todos exampleStore)"
    by (simp add: generateId_def exampleStore_def exampleTodoA_def exampleTodoB_def)
  show ?thesis
    using addTodo_then_getTodoById [OF h, of 10 10 "''n1''" exampleDraft] h
    by (simp add: exampleDraft_def generateId_def)
qed

text \<open>
  The claim as stated fails in two ways. \<^verbatim>\<open>generateId\<close> does not look at the store:
  when the random digits and the clock digits are those of the identifier of the
  completed example todo, the lookup after \<^verbatim>\<open>addTodo\<close> returns that old, completed
  item. And the two timestamps come from two clock readings: when the clock advances
  from 10 to 11 between them, the new item's creation and last-modified timestamps
  differ.
\<close>

theorem addTodo_collision_counterexample:
  "getTodoById (generateId ''0.k1x9q0c7abe'' ''loyw3v5t'')
     (addTodo (generateId ''0.k1x9q0c7abe'' ''loyw3v5t'') 10 10 ''n1'' exampleDraft
        exampleStore)
     = Some exampleTodoB
   \<and> completed exampleTodoB
   \<and> map createdAt
       (todos (addTodo (generateId ''0.z3n8u2h6wpd'' ''loyw3v9a'') 10 11 ''n1'' exampleDraft
          (initialStore 0)))
     = [10]
   \<and> map updatedAt
       (todos (addTodo (generateId ''0.z3n8u2h6wpd'' ''loyw3v9a'') 10 11 ''n1'' exampleDraft
          (initialStore 0)))
     = [11]"
  by (simp add: addTodo_def addNotification_def getTodoById_def exampleStore_def
      initialStore_def exampleTodoA_def exampleTodoB_def exampleDraft_def generateId_def
      truthy_number_def truthy_bool_def Let_def)

section \<open>Properties of the category actions\<close>

lemma category_map_indexed:
  "map category
     (map_indexed
        (\<lambda>k todo. if category todo = i then todo\<lparr>category := c, updatedAt := now k\<rparr>
                   else todo) j xs)
     = map (\<lambda>todo. if category todo = i then c else category todo) xs"
  by (induction xs arbitrary: j) simp_all

text \<open>
  What \<^verbatim>\<open>deleteCategory\<close> does for every identifier: the category is gone, and the items
  that referred to it refer to 'personal'. When the identifier is not 'personal', no
  item refers to it afterwards.
\<close>

lemma deleteCategory_removed: "getCategoryById i (deleteCategory now n i st) = None"
  by (simp add: deleteCategory_def Let_def getCategoryById_def categories_addNotification
      find_None_iff split: option.split)

lemma deleteCategory_reassigns:
  "map category (todos (deleteCategory now n i st))
     = map (\<lambda>todo. if category todo = i then ''personal'' else category todo) (todos st)"
  by (simp add: deleteCategory_def Let_def todos_addNotification category_map_indexed
      split: option.split)

lemma deleteCategory_no_reference:
  assumes "i \<noteq> ''personal''"
  shows "i \<notin> category ` set (todos (deleteCategory now n i st))"
proof -
  have "category ` set (todos (deleteCategory now n i st))
      = set (map category (todos (deleteCategory now n i st)))" by simp
  also have "\<dots> = set (map (\<lambda>todo. if category todo = i then ''personal'' else category todo)
      (todos st))"
    by (simp only: deleteCategory_reassigns)
  finally show ?thesis using assms by auto
qed

text \<open>
  Claim C4, evaluated on the default categories and one item of the category 'personal',
  deleting 'personal'. The claim says that no item refers to the deleted identifier
  afterwards. In the code the target of the reassignment is the constant 'personal':
  the category is removed, the item still refers to 'personal', and the notification
  says the todos were moved to Personal.
\<close>

theorem deleteCategory_personal_dangling:
  "category exampleTodoA = ''personal''
   \<and> map cat_id
       (categories
          (deleteCategory (\<lambda>k. 7) ''n1'' ''personal''
             ((initialStore 0)\<lparr>todos := [exampleTodoA]\<rparr>)))
     = [''work'', ''shopping'', ''health'']
   \<and> getCategoryById ''personal''
       (deleteCategory (\<lambda>k. 7) ''n1'' ''personal''
          ((initialStore 0)\<lparr>todos := [exampleTodoA]\<rparr>))
     = None
   \<and> map category
       (todos
          (deleteCategory (\<lambda>k. 7) ''n1'' ''personal''
             ((initialStore 0)\<lparr>todos := [exampleTodoA]\<rparr>)))
     = [''personal'']
   \<and> map notif_title
       (notifications
          (deleteCategory (\<lambda>k. 7) ''n1'' ''personal''
             ((initialStore 0)\<lparr>todos := [exampleTodoA]\<rparr>)))
     = [''Category deleted'']"
  by (simp add: deleteCategory_def addNotification_def getCategoryById_def
      initialStore_def defaultCategories_def exampleTodoA_def
      truthy_number_def truthy_bool_def Let_def)

section \<open>Properties of the import\<close>

text \<open>
  A document with an array of todos is appended to the collection as it is: the
  identifiers of the new items are not compared with those in the store.
\<close>

lemma importData_appends:
  "JSON_parse s = Some (JObject [(''todos'', JArray vs)]) \<Longrightarrow>
   todos (importData JSON_parse asTodo asCategory n s st) = todos st @ map asTodo vs"
  by (simp add: importData_def Let_def todos_addNotification)

text \<open>
  Claim C1, as amended. When the parse fails - \<^verbatim>\<open>JSON.parse\<close> throws, or it returns
  \<^verbatim>\<open>null\<close> and reading a property of that throws - \<^verbatim>\<open>importData\<close> leaves the todos and
  the categories unchanged and appends exactly one notification, of type 'error'. When
  the input parses to a value whose \<^verbatim>\<open>todos\<close> and \<^verbatim>\<open>categories\<close> are not arrays (such as
  the document \<^verbatim>\<open>{}\<close>), the two collections are unchanged as well and exactly one
  notification is appended, but its type is 'success'.
\<close>

theorem importData_fails_closed:
  "(JSON_parse s = None \<or> JSON_parse s = Some JNull \<longrightarrow>
      todos (importData JSON_parse asTodo asCategory n s st) = todos st
    \<and> categories (importData JSON_parse asTodo asCategory n s st) = categories st
    \<and> (\<exists>a. notifications (importData JSON_parse asTodo asCategory n s st)
              = notifications st @ [a] \<and> notif_type a = Error))
   \<and> (JSON_parse s = Some d
      \<and> get_property d ''todos'' = Some v \<and> array_elements v = None
      \<and> get_property d ''categories'' = Some w \<and> array_elements w = None \<longrightarrow>
      todos (importData JSON_parse asTodo asCategory n s st) = todos st
    \<and> categories (importData JSON_parse asTodo asCategory n s st) = categories st
    \<and> (\<exists>a. notifications (importData JSON_parse asTodo asCategory n s st)
              = notifications st @ [a] \<and> notif_type a = Success))"
  by (auto simp: importData_def Let_def todos_addNotification categories_addNotification
      notifications_addNotification importFailed_def importSucceeded_def)

text \<open>
  The theorem on the example store and the inputs \<^verbatim>\<open>not json\<close> (a syntax error),
  \<^verbatim>\<open>null\<close> and \<^verbatim>\<open>{}\<close> (an object without \<^verbatim>\<open>todos\<close> and \<^verbatim>\<open>categories\<close>).
\<close>

theorem importData_fails_closed_witness:
  "exampleParse ''not json'' = None
   \<and> exampleParse ''null'' = Some JNull
   \<and> exampleParse ''{}'' = Some (JObject [])
   \<and> get_property (JObject []) ''todos'' = Some None
   \<and> get_property (JObject []) ''categories'' = Some None
   \<and> array_elements None = None
   \<and> todos (importData exampleParse (\<lambda>v. exampleTodoA) (\<lambda>v. exampleCategory)
        ''n1'' ''not json'' exampleStore) = todos exampleStore
   \<and> categories (importData exampleParse (\<lambda>v. exampleTodoA) (\<lambda>v. exampleCategory)
        ''n1'' ''not json'' exampleStore) = categories exampleStore
   \<and> (\<exists>a. notifications (importData exampleParse (\<lambda>v. exampleTodoA) (\<lambda>v. exampleCategory)
        ''n1'' ''not json'' exampleStore) = notifications exampleStore @ [a]
        \<and> notif_type a = Error)
   \<and> todos (importData exampleParse (\<lambda>v. exampleTodoA) (\<lambda>v. exampleCategory)
        ''n1'' ''null'' exampleStore) = todos exampleStore
   \<and> (\<exists>a. notifications (importData exampleParse (\<lambda>v. exampleTodoA) (\<lambda>v. exampleCategory)
        ''n1'' ''null'' exampleStore) = notifications exampleStore @ [a]
        \<and> notif_type a = Error)
   \<and> todos (importData exampleParse (\<lambda>v. exampleTodoA) (\<lambda>v. exampleCategory)
        ''n1'' ''{}'' exampleStore) = todos exampleStore
   \<and> categories (importData exampleParse (\<lambda>v. exampleTodoA) (\<lambda>v. exampleCategory)
        ''n1'' ''{}'' exampleStore) = categories exampleStore
   \<and> (\<exists>a. notifications (importData exampleParse (\<lambda>v. exampleTodoA) (\<lambda>v. exampleCategory)
        ''n1'' ''{}'' exampleStore) = notifications exampleStore @ [a]
        \<and> notif_type a = Success)"
proof -
  have h: "exampleParse ''not json'' = None
   \<and> exampleParse ''null'' = Some JNull
   \<and> exampleParse ''{}'' = Some (JObject [])
   \<and> get_property (JObject []) ''todos'' = Some None
   \<and> get_property (JObject []) ''categories'' = Some None
   \<and> array_elements None = None"
    by (simp add: exampleParse_def)
  show ?thesis
    using importData_fails_closed [where JSON_parse = exampleParse and s = "''not json''"
        and asTodo = "\<lambda>v. exampleTodoA" and asCategory = "\<lambda>v. exampleCategory"
        and n = "''n1''" and st = exampleStore and d = JNull and v = None and w = None]
      importData_fails_closed [where JSON_parse = exampleParse and s = "''null''"
        and asTodo = "\<lambda>v. exampleTodoA" and asCategory = "\<lambda>v. exampleCategory"
        and n = "''n1''" and st = exampleStore and d = JNull and v = None and w = None]
      importData_fails_closed [where JSON_parse = exampleParse and s = "''{}''"
        and asTodo = "\<lambda>v. exampleTodoA" and asCategory = "\<lambda>v. exampleCategory"
        and n = "''n1''" and st = exampleStore and d = "JObject []" and v = None
        and w = None] h
    by blast
qed

text \<open>
  The claim as stated fails on the document \<^verbatim>\<open>{}\<close>: it parses, both guards skip their
  collection, and the one notification that is appended has the type 'success'.
\<close>

theorem importData_empty_object_counterexample:
  "exampleParse ''{}'' = Some (JObject [])
   \<and> map notif_type
       (notifications
          (importData exampleParse (\<lambda>v. exampleTodoA) (\<lambda>v. exampleCategory)
             ''n1'' ''{}'' (initialStore 0)))
     = [Success]"
  by (simp add: importData_def Let_def notifications_addNotification importSucceeded_def
      initialStore_def exampleParse_def)

end
